theory Spec2Isabelle
  imports Complex_Main "HOL-Library.Multiset"
begin

section \<open>Football league manager: Player, Team and League\<close>

text \<open>
  The domain model of the repository is three JavaScript classes, \<^verbatim>\<open>Player\<close>,
  \<^verbatim>\<open>Team\<close> and \<^verbatim>\<open>League\<close>. Objects are held by reference: a league's
  \<^verbatim>\<open>teams\<close> array holds Team objects and a team's \<^verbatim>\<open>players\<close> array holds
  Player objects. The embedding keeps that: arrays hold references (natural numbers) and
  two stores map references to the objects' fields. A method is a function of the fields
  of \<^verbatim>\<open>this\<close> and of the stores it reads, and returns what it returns in
  JavaScript together with whatever it has mutated.

  Numbers: all callers hand the model integers (the user interface passes the result of
  \<^verbatim>\<open>parseInt\<close> and only after \<^verbatim>\<open>!isNaN\<close>), so skills, goals, points and
  card tallies are \<^typ>\<open>int\<close>. The one quotient the code forms, the average of three
  skills, is a \<^typ>\<open>rat\<close>.
\<close>

subsection \<open>Player\<close>

type_synonym pref = nat
type_synonym tref = nat

record Player =
  pname :: string
  position :: string
  age :: int
  nationality :: string
  jerseyNumber :: int
  pace :: int
  shooting :: int
  passing :: int
  overallRating :: int
  isInjured :: bool
  yellowCards :: int
  redCards :: int

text \<open>\<^verbatim>\<open>Math.round(x)\<close>: the integer closest to \<open>x\<close>, the larger one when two are
  equally close.\<close>

definition Math_round :: "rat \<Rightarrow> int" where
  "Math_round x = \<lfloor>x + 1 / 2\<rfloor>"

text \<open>\<^verbatim>\<open>validateAttribute(value) { return Math.max(1, Math.min(10, value)); }\<close>\<close>

definition validateAttribute :: "int \<Rightarrow> int" where
  "validateAttribute v = max 1 (min 10 v)"

text \<open>\<^verbatim>\<open>calculateOverallRating() { return Math.round((this.pace + this.shooting + this.passing) / 3); }\<close>\<close>

definition calculateOverallRating :: "Player \<Rightarrow> int" where
  "calculateOverallRating p = Math_round (of_int (pace p + shooting p + passing p) / 3)"

text \<open>The constructor assigns the fields in the order of the source: the three skills
  first, then the rating computed from the object so far, then the status fields.\<close>

definition Player_new ::
  "string \<Rightarrow> string \<Rightarrow> int \<Rightarrow> int \<Rightarrow> int \<Rightarrow> int \<Rightarrow> string \<Rightarrow> int \<Rightarrow> Player" where
  "Player_new nm pos pc sh pa ag ntl jn =
     (let p0 = \<lparr>pname = nm, position = pos, age = ag, nationality = ntl, jerseyNumber = jn,
                pace = validateAttribute pc, shooting = validateAttribute sh,
                passing = validateAttribute pa, overallRating = 0,
                isInjured = False, yellowCards = 0, redCards = 0\<rparr>
      in p0\<lparr>overallRating := calculateOverallRating p0\<rparr>)"

definition Player_updateStats :: "Player \<Rightarrow> int \<Rightarrow> int \<Rightarrow> int \<Rightarrow> Player" where
  "Player_updateStats p newPace newShooting newPassing =
     (let p1 = p\<lparr>pace := validateAttribute newPace\<rparr>;
          p2 = p1\<lparr>shooting := validateAttribute newShooting\<rparr>;
          p3 = p2\<lparr>passing := validateAttribute newPassing\<rparr>
      in p3\<lparr>overallRating := calculateOverallRating p3\<rparr>)"

definition setInjuryStatus :: "Player \<Rightarrow> bool \<Rightarrow> Player" where
  "setInjuryStatus p b = p\<lparr>isInjured := b\<rparr>"

text \<open>\<^verbatim>\<open>addCard(cardType)\<close>: a yellow card increments the tally and, at two or more,
  turns it into a red card; any string other than \<^verbatim>\<open>'yellow'\<close> and \<^verbatim>\<open>'red'\<close>
  falls through both branches.\<close>

definition addCard :: "Player \<Rightarrow> string \<Rightarrow> Player" where
  "addCard p cardType =
     (if cardType = ''yellow'' then
        (let p1 = p\<lparr>yellowCards := yellowCards p + 1\<rparr>
         in if yellowCards p1 \<ge> 2
            then (p1\<lparr>redCards := redCards p1 + 1\<rparr>)\<lparr>yellowCards := 0\<rparr>
            else p1)
      else if cardType = ''red'' then p\<lparr>redCards := redCards p + 1\<rparr>
      else p)"

record PlayerSkills =
  sk_pace :: int
  sk_shooting :: int
  sk_passing :: int
  sk_overall :: int

record PlayerStatus =
  st_isInjured :: bool
  st_yellowCards :: int
  st_redCards :: int

record PlayerInfo =
  pi_name :: string
  pi_position :: string
  pi_age :: int
  pi_nationality :: string
  pi_jerseyNumber :: int
  pi_stats :: PlayerSkills
  pi_status :: PlayerStatus

definition getPlayerInfo :: "Player \<Rightarrow> PlayerInfo" where
  "getPlayerInfo p =
     \<lparr>pi_name = pname p, pi_position = position p, pi_age = age p,
      pi_nationality = nationality p, pi_jerseyNumber = jerseyNumber p,
      pi_stats = \<lparr>sk_pace = pace p, sk_shooting = shooting p, sk_passing = passing p,
                  sk_overall = overallRating p\<rparr>,
      pi_status = \<lparr>st_isInjured = isInjured p, st_yellowCards = yellowCards p,
                   st_redCards = redCards p\<rparr>\<rparr>"

subsection \<open>Team\<close>

text \<open>A value handed to \<^verbatim>\<open>addPlayer\<close> or \<^verbatim>\<open>addTeam\<close>: a Player object, a Team
  object, or anything else. It is what the \<^verbatim>\<open>instanceof\<close> checks look at.\<close>

datatype jsval = PlayerObj pref | TeamObj tref | OtherVal

record Team =
  tname :: string
  city :: string
  stadium :: string
  players :: "pref list"
  points :: int
  goalsFor :: int
  goalsAgainst :: int

type_synonym playerStore = "pref \<Rightarrow> Player"
type_synonym teamStore = "tref \<Rightarrow> Team"

definition Team_new :: "string \<Rightarrow> string \<Rightarrow> string \<Rightarrow> Team" where
  "Team_new nm c s =
     \<lparr>tname = nm, city = c, stadium = s, players = [], points = 0, goalsFor = 0,
      goalsAgainst = 0\<rparr>"

text \<open>\<^verbatim>\<open>Array.prototype.findIndex\<close>: the index of the first element that satisfies the
  predicate, \<open>-1\<close> when there is none.\<close>

fun findIndex :: "('a \<Rightarrow> bool) \<Rightarrow> 'a list \<Rightarrow> int" where
  "findIndex P [] = -1"
| "findIndex P (x # xs) =
     (if P x then 0 else (let i = findIndex P xs in if i = -1 then -1 else i + 1))"

text \<open>\<^verbatim>\<open>xs.splice(start, deleteCount)\<close> for \<open>start \<ge> 0\<close>, the only way the code calls
  it: the elements from \<open>start\<close> on, \<open>deleteCount\<close> of them, are removed in place.\<close>

definition Array_splice :: "'a list \<Rightarrow> nat \<Rightarrow> nat \<Rightarrow> 'a list" where
  "Array_splice xs start deleteCount = take start xs @ drop (start + deleteCount) xs"

definition addPlayer :: "Team \<Rightarrow> jsval \<Rightarrow> bool \<times> Team" where
  "addPlayer t v =
     (case v of
        PlayerObj p \<Rightarrow> (True, t\<lparr>players := players t @ [p]\<rparr>)
      | _ \<Rightarrow> (False, t))"

definition removePlayer :: "playerStore \<Rightarrow> Team \<Rightarrow> string \<Rightarrow> bool \<times> Team" where
  "removePlayer ps t playerName =
     (let index = findIndex (\<lambda>p. pname (ps p) = playerName) (players t)
      in if index = -1 then (False, t)
         else (True, t\<lparr>players := Array_splice (players t) (nat index) 1\<rparr>))"

definition getPlayer :: "playerStore \<Rightarrow> Team \<Rightarrow> string \<Rightarrow> pref option" where
  "getPlayer ps t playerName = find (\<lambda>p. pname (ps p) = playerName) (players t)"

definition Team_updateStats :: "Team \<Rightarrow> int \<Rightarrow> int \<Rightarrow> int \<Rightarrow> Team" where
  "Team_updateStats t goalsScored goalsConceded pointsEarned =
     (let t1 = t\<lparr>goalsFor := goalsFor t + goalsScored\<rparr>;
          t2 = t1\<lparr>goalsAgainst := goalsAgainst t1 + goalsConceded\<rparr>
      in t2\<lparr>points := points t2 + pointsEarned\<rparr>)"

record TeamStats =
  ts_points :: int
  ts_goalsFor :: int
  ts_goalsAgainst :: int
  ts_goalDifference :: int

record TeamInfo =
  ti_name :: string
  ti_city :: string
  ti_stadium :: string
  ti_players :: "PlayerInfo list"
  ti_stats :: TeamStats

definition getTeamInfo :: "playerStore \<Rightarrow> Team \<Rightarrow> TeamInfo" where
  "getTeamInfo ps t =
     \<lparr>ti_name = tname t, ti_city = city t, ti_stadium = stadium t,
      ti_players = map (\<lambda>player. getPlayerInfo (ps player)) (players t),
      ti_stats = \<lparr>ts_points = points t, ts_goalsFor = goalsFor t,
                  ts_goalsAgainst = goalsAgainst t,
                  ts_goalDifference = goalsFor t - goalsAgainst t\<rparr>\<rparr>"

subsection \<open>League\<close>

text \<open>A match record; \<open>date\<close> is the clock reading of \<^verbatim>\<open>new Date()\<close>, which the
  model takes as an argument.\<close>

record Match =
  homeTeam :: string
  awayTeam :: string
  homeGoals :: int
  awayGoals :: int
  date :: int

record League =
  lname :: string
  country :: string
  teams :: "tref list"
  matches :: "Match list"

definition League_new :: "string \<Rightarrow> string \<Rightarrow> League" where
  "League_new nm c = \<lparr>lname = nm, country = c, teams = [], matches = []\<rparr>"

definition addTeam :: "League \<Rightarrow> jsval \<Rightarrow> bool \<times> League" where
  "addTeam l v =
     (case v of
        TeamObj t \<Rightarrow> (True, l\<lparr>teams := teams l @ [t]\<rparr>)
      | _ \<Rightarrow> (False, l))"

definition removeTeam :: "teamStore \<Rightarrow> League \<Rightarrow> string \<Rightarrow> bool \<times> League" where
  "removeTeam ts l teamName =
     (let index = findIndex (\<lambda>t. tname (ts t) = teamName) (teams l)
      in if index = -1 then (False, l)
         else (True, l\<lparr>teams := Array_splice (teams l) (nat index) 1\<rparr>))"

text \<open>\<^verbatim>\<open>this.teams.find(t => t.name === teamName) || null\<close>: the first team of that
  name, as a reference to the object, or nothing.\<close>

definition getTeam :: "teamStore \<Rightarrow> League \<Rightarrow> string \<Rightarrow> tref option" where
  "getTeam ts l teamName = find (\<lambda>t. tname (ts t) = teamName) (teams l)"

text \<open>\<^verbatim>\<open>recordMatch\<close> looks both teams up first, returns \<^verbatim>\<open>false\<close> when one is
  missing, and otherwise updates the home object, then the away object (read from the
  store after the first update: both names may have resolved to one object), and pushes
  the match record.\<close>

definition recordMatch ::
  "teamStore \<Rightarrow> League \<Rightarrow> string \<Rightarrow> string \<Rightarrow> int \<Rightarrow> int \<Rightarrow> int \<Rightarrow> bool \<times> teamStore \<times> League" where
  "recordMatch ts l homeTeamName awayTeamName hGoals aGoals now =
     (case getTeam ts l homeTeamName of
        None \<Rightarrow> (False, ts, l)
      | Some h \<Rightarrow>
          (case getTeam ts l awayTeamName of
             None \<Rightarrow> (False, ts, l)
           | Some a \<Rightarrow>
               (let (homePoints, awayPoints) =
                      (if hGoals > aGoals then (3, 0)
                       else if hGoals < aGoals then (0, 3)
                       else (1, 1));
                    ts1 = ts(h := Team_updateStats (ts h) hGoals aGoals homePoints);
                    ts2 = ts1(a := Team_updateStats (ts1 a) aGoals hGoals awayPoints)
                in (True, ts2,
                    l\<lparr>matches := matches l @
                       [\<lparr>homeTeam = homeTeamName, awayTeam = awayTeamName,
                         homeGoals = hGoals, awayGoals = aGoals, date = now\<rparr>]\<rparr>))))"

text \<open>The comparator handed to \<^verbatim>\<open>sort\<close> in \<^verbatim>\<open>getStandings\<close>.\<close>

definition standingsCompare :: "TeamInfo \<Rightarrow> TeamInfo \<Rightarrow> int" where
  "standingsCompare a b =
     (if ts_points (ti_stats b) \<noteq> ts_points (ti_stats a)
      then ts_points (ti_stats b) - ts_points (ti_stats a)
      else ts_goalDifference (ti_stats b) - ts_goalDifference (ti_stats a))"

text \<open>\<^verbatim>\<open>Array.prototype.sort(comparefn)\<close>. ECMAScript (from the 2019 edition on)
  requires the sort to be stable, which for a consistent comparator fixes the result
  whatever algorithm the engine runs. The model is one such algorithm, insertion from
  the right: an element goes in front of the first element of the sorted rest that the
  comparator does not put before it.\<close>

fun sortInsert :: "('a \<Rightarrow> 'a \<Rightarrow> int) \<Rightarrow> 'a \<Rightarrow> 'a list \<Rightarrow> 'a list" where
  "sortInsert cmp x [] = [x]"
| "sortInsert cmp x (y # ys) =
     (if cmp x y \<le> 0 then x # y # ys else y # sortInsert cmp x ys)"

fun Array_sort :: "('a \<Rightarrow> 'a \<Rightarrow> int) \<Rightarrow> 'a list \<Rightarrow> 'a list" where
  "Array_sort cmp [] = []"
| "Array_sort cmp (x # xs) = sortInsert cmp x (Array_sort cmp xs)"

definition getStandings :: "playerStore \<Rightarrow> teamStore \<Rightarrow> League \<Rightarrow> TeamInfo list" where
  "getStandings ps ts l =
     Array_sort standingsCompare (map (\<lambda>team. getTeamInfo ps (ts team)) (teams l))"

record LeagueInfo =
  li_name :: string
  li_country :: string
  li_teams :: "TeamInfo list"
  li_matches :: "Match list"
  li_standings :: "TeamInfo list"

definition getLeagueInfo :: "playerStore \<Rightarrow> teamStore \<Rightarrow> League \<Rightarrow> LeagueInfo" where
  "getLeagueInfo ps ts l =
     \<lparr>li_name = lname l, li_country = country l,
      li_teams = map (\<lambda>team. getTeamInfo ps (ts team)) (teams l),
      li_matches = matches l,
      li_standings = getStandings ps ts l\<rparr>"

subsection \<open>Runs of operations\<close>

text \<open>The mutating methods of a Player, as data, so that a property can be stated of every
  sequence of calls.\<close>

datatype playerOp = UpdateStats int int int | SetInjuryStatus bool | AddCard string

fun applyPlayerOp :: "Player \<Rightarrow> playerOp \<Rightarrow> Player" where
  "applyPlayerOp p (UpdateStats newPace newShooting newPassing) =
     Player_updateStats p newPace newShooting newPassing"
| "applyPlayerOp p (SetInjuryStatus b) = setInjuryStatus p b"
| "applyPlayerOp p (AddCard cardType) = addCard p cardType"

text \<open>The whole state a caller can reach: both stores and the league. Every method of
  the three classes except \<^verbatim>\<open>recordMatch\<close>, \<^verbatim>\<open>Team.updateStats\<close> and the
  constructors is an \<open>operation\<close>; \<open>exec\<close> runs one on the state and keeps the state it
  leaves (the queries leave the state as it is; what they return is not kept).\<close>

record world =
  playerAt :: playerStore
  teamAt :: teamStore
  league :: League

datatype operation =
    AddTeam jsval
  | RemoveTeam string
  | GetTeam string
  | GetStandings
  | GetLeagueInfo
  | AddPlayer tref jsval
  | RemovePlayer tref string
  | GetPlayer tref string
  | GetTeamInfo tref
  | OnPlayer pref playerOp
  | GetPlayerInfo pref

fun exec :: "operation \<Rightarrow> world \<Rightarrow> world" where
  "exec (AddTeam v) w = w\<lparr>league := snd (addTeam (league w) v)\<rparr>"
| "exec (RemoveTeam teamName) w = w\<lparr>league := snd (removeTeam (teamAt w) (league w) teamName)\<rparr>"
| "exec (GetTeam teamName) w = w"
| "exec GetStandings w = w"
| "exec GetLeagueInfo w = w"
| "exec (AddPlayer t v) w = w\<lparr>teamAt := (teamAt w)(t := snd (addPlayer (teamAt w t) v))\<rparr>"
| "exec (RemovePlayer t playerName) w =
     w\<lparr>teamAt := (teamAt w)(t := snd (removePlayer (playerAt w) (teamAt w t) playerName))\<rparr>"
| "exec (GetPlayer t playerName) w = w"
| "exec (GetTeamInfo t) w = w"
| "exec (OnPlayer p op) w = w\<lparr>playerAt := (playerAt w)(p := applyPlayerOp (playerAt w p) op)\<rparr>"
| "exec (GetPlayerInfo p) w = w"

text \<open>The league-wide totals: a statistic summed over the league's \<^verbatim>\<open>teams\<close>
  array.\<close>

definition leagueTotal :: "(Team \<Rightarrow> int) \<Rightarrow> world \<Rightarrow> int" where
  "leagueTotal f w = sum_list (map (\<lambda>t. f (teamAt w t)) (teams (league w)))"

definition totalPoints :: "world \<Rightarrow> int" where
  "totalPoints w = leagueTotal points w"

definition totalGoalsFor :: "world \<Rightarrow> int" where
  "totalGoalsFor w = leagueTotal goalsFor w"

definition totalGoalsAgainst :: "world \<Rightarrow> int" where
  "totalGoalsAgainst w = leagueTotal goalsAgainst w"

subsection \<open>The properties, in the words of the specification\<close>

text \<open>Round-half-up as the specification words it: the nearest integer, and the upper
  one when the fraction is exactly one half.\<close>

definition roundHalfUp :: "rat \<Rightarrow> int" where
  "roundHalfUp x = (if x - of_int \<lfloor>x\<rfloor> < 1 / 2 then \<lfloor>x\<rfloor> else \<lfloor>x\<rfloor> + 1)"

definition skillAverage :: "Player \<Rightarrow> rat" where
  "skillAverage p = of_int (pace p + shooting p + passing p) / 3"

definition ratingInv :: "Player \<Rightarrow> bool" where
  "ratingInv p \<longleftrightarrow> overallRating p = roundHalfUp (skillAverage p)"

definition cardsInv :: "Player \<Rightarrow> bool" where
  "cardsInv p \<longleftrightarrow> (yellowCards p = 0 \<or> yellowCards p = 1) \<and> 0 \<le> redCards p"

text \<open>The order of the table: \<open>a\<close> may stand before \<open>b\<close> when it has more points, or
  as many points and at least the goal difference.\<close>

definition rankedBefore :: "TeamInfo \<Rightarrow> TeamInfo \<Rightarrow> bool" where
  "rankedBefore a b \<longleftrightarrow>
     ts_points (ti_stats a) > ts_points (ti_stats b)
     \<or> (ts_points (ti_stats a) = ts_points (ti_stats b)
        \<and> ts_goalDifference (ti_stats a) \<ge> ts_goalDifference (ti_stats b))"

definition sameRank :: "int \<Rightarrow> int \<Rightarrow> TeamInfo \<Rightarrow> bool" where
  "sameRank pts gd a \<longleftrightarrow> ts_points (ti_stats a) = pts \<and> ts_goalDifference (ti_stats a) = gd"

subsection \<open>Example states\<close>

text \<open>A league of two freshly constructed teams, A at reference 0 and B at reference 1;
  every other reference holds a team outside the league.\<close>

definition exTeams :: teamStore where
  "exTeams = (\<lambda>r. Team_new ''Z'' ''Unknown'' ''Unknown'')
               (0 := Team_new ''A'' ''Unknown'' ''Unknown'',
                1 := Team_new ''B'' ''Unknown'' ''Unknown'')"

definition exLeague :: League where
  "exLeague = snd (addTeam (snd (addTeam (League_new ''L'' ''Unknown'') (TeamObj 0))) (TeamObj 1))"

definition exPlayer :: Player where
  "exPlayer = Player_new ''Ann'' ''Forward'' 7 12 4 25 ''Unknown'' 0"

definition exPlayers :: playerStore where
  "exPlayers = (\<lambda>r. exPlayer)(1 := Player_new ''Bea'' ''Defender'' 3 3 9 30 ''Unknown'' 5)"

text \<open>The same league after A has beaten B 3-1 at time 7.\<close>

definition exWorldPlayed :: world where
  "exWorldPlayed =
     \<lparr>playerAt = exPlayers,
      teamAt = fst (snd (recordMatch exTeams exLeague ''A'' ''B'' 3 1 7)),
      league = snd (snd (recordMatch exTeams exLeague ''A'' ''B'' 3 1 7))\<rparr>"

text \<open>Four teams for the table: points 3, 3, 1, 3 and goal differences 2, -1, 0, 2; the
  first and the last are level on both.\<close>

definition exTableTeams :: teamStore where
  "exTableTeams = (\<lambda>r. Team_new ''Z'' ''Unknown'' ''Unknown'')
     (0 := (Team_new ''A'' ''Unknown'' ''Unknown'')\<lparr>points := 3, goalsFor := 3, goalsAgainst := 1\<rparr>,
      1 := (Team_new ''B'' ''Unknown'' ''Unknown'')\<lparr>points := 3, goalsFor := 2, goalsAgainst := 3\<rparr>,
      2 := (Team_new ''C'' ''Unknown'' ''Unknown'')\<lparr>points := 1, goalsFor := 1, goalsAgainst := 1\<rparr>,
      3 := (Team_new ''D'' ''Unknown'' ''Unknown'')\<lparr>points := 3, goalsFor := 4, goalsAgainst := 2\<rparr>)"

definition exTableLeague :: League where
  "exTableLeague = (League_new ''L'' ''Unknown'')\<lparr>teams := [0, 1, 2, 3]\<rparr>"

section \<open>Player: skills, rating and cards\<close>

subsection \<open>Clamping\<close>

lemma validateAttribute_bounds: "1 \<le> validateAttribute v \<and> validateAttribute v \<le> 10"
  by (simp add: validateAttribute_def)

lemma validateAttribute_fixed: "1 \<le> v \<Longrightarrow> v \<le> 10 \<Longrightarrow> validateAttribute v = v"
  by (simp add: validateAttribute_def)

lemma Player_new_skills:
  "pace (Player_new nm pos pc sh pa ag ntl jn) = validateAttribute pc
   \<and> shooting (Player_new nm pos pc sh pa ag ntl jn) = validateAttribute sh
   \<and> passing (Player_new nm pos pc sh pa ag ntl jn) = validateAttribute pa"
  by (simp add: Player_new_def Let_def)

lemma Player_updateStats_skills:
  "pace (Player_updateStats p a b c) = validateAttribute a
   \<and> shooting (Player_updateStats p a b c) = validateAttribute b
   \<and> passing (Player_updateStats p a b c) = validateAttribute c"
  by (simp add: Player_updateStats_def Let_def)

text \<open>
  Claim C5. For every skill input \<open>v\<close> the clamp \<open>validateAttribute\<close> yields a value
  between 1 and 10 and is idempotent, and it is applied on every skill write: each skill
  of a constructed player and each skill after \<open>updateStats\<close> is the clamp of the value
  passed in (inputs are integers, as the callers supply them).
\<close>

theorem validateAttribute_range_idempotent:
  "1 \<le> validateAttribute v \<and> validateAttribute v \<le> 10
   \<and> validateAttribute (validateAttribute v) = validateAttribute v
   \<and> pace (Player_new nm pos pc sh pa ag ntl jn) = validateAttribute pc
   \<and> shooting (Player_new nm pos pc sh pa ag ntl jn) = validateAttribute sh
   \<and> passing (Player_new nm pos pc sh pa ag ntl jn) = validateAttribute pa
   \<and> pace (Player_updateStats p a b c) = validateAttribute a
   \<and> shooting (Player_updateStats p a b c) = validateAttribute b
   \<and> passing (Player_updateStats p a b c) = validateAttribute c"
proof -
  have "validateAttribute (validateAttribute v) = validateAttribute v"
    using validateAttribute_bounds [of v] by (simp add: validateAttribute_fixed)
  then show ?thesis
    using validateAttribute_bounds [of v] Player_new_skills [of nm pos pc sh pa ag ntl jn]
      Player_updateStats_skills [of p a b c]
    by simp
qed

subsection \<open>Overall rating\<close>

text \<open>\<^verbatim>\<open>Math.round(2.5)\<close> is 3, \<^verbatim>\<open>Math.round(-2.5)\<close> is -2, \<^verbatim>\<open>Math.round(-2.6)\<close> is -3,
  and the rating of skills 10, 1, 5 is \<^verbatim>\<open>Math.round(16 / 3)\<close>, 5.\<close>

lemma Math_round_examples:
  "Math_round (5 / 2) = 3" "Math_round (- 5 / 2) = - 2" "Math_round (- 13 / 5) = - 3"
  "Math_round (16 / 3) = 5"
  by code_simp+

lemma Math_round_roundHalfUp: "Math_round x = roundHalfUp x"
  unfolding Math_round_def roundHalfUp_def by (simp; linarith)

lemma roundHalfUp_closest: "\<bar>x - of_int (roundHalfUp x)\<bar> \<le> \<bar>x - of_int k\<bar>"
proof -
  have f1: "of_int \<lfloor>x\<rfloor> \<le> x" and f2: "x < of_int \<lfloor>x\<rfloor> + 1" by linarith+
  have k: "k \<le> \<lfloor>x\<rfloor> \<or> \<lfloor>x\<rfloor> + 1 \<le> k" by linarith
  have lo: "k \<le> \<lfloor>x\<rfloor> \<Longrightarrow> (of_int k :: rat) \<le> of_int \<lfloor>x\<rfloor>" by simp
  have hi: "\<lfloor>x\<rfloor> + 1 \<le> k \<Longrightarrow> (of_int \<lfloor>x\<rfloor> :: rat) + 1 \<le> of_int k"
    by (metis of_int_1 of_int_add of_int_le_iff)
  show ?thesis
  proof (cases "x - of_int \<lfloor>x\<rfloor> < 1 / 2")
    case True
    then have "of_int (roundHalfUp x) = (of_int \<lfloor>x\<rfloor> :: rat)" by (simp add: roundHalfUp_def)
    then show ?thesis using True f1 f2 k lo hi by linarith
  next
    case False
    then have "of_int (roundHalfUp x) = (of_int \<lfloor>x\<rfloor> :: rat) + 1" by (simp add: roundHalfUp_def)
    then show ?thesis using False f1 f2 k lo hi by linarith
  qed
qed

lemma roundHalfUp_tie:
  "\<bar>x - of_int (roundHalfUp x)\<bar> = 1 / 2 \<Longrightarrow> x < of_int (roundHalfUp x)"
proof (cases "x - of_int \<lfloor>x\<rfloor> < 1 / 2")
  case True
  assume a: "\<bar>x - of_int (roundHalfUp x)\<bar> = 1 / 2"
  have f1: "of_int \<lfloor>x\<rfloor> \<le> x" by linarith
  from True have "of_int (roundHalfUp x) = (of_int \<lfloor>x\<rfloor> :: rat)" by (simp add: roundHalfUp_def)
  then show ?thesis using True f1 a by linarith
next
  case False
  have f2: "x < of_int \<lfloor>x\<rfloor> + 1" by linarith
  from False have "of_int (roundHalfUp x) = (of_int \<lfloor>x\<rfloor> :: rat) + 1" by (simp add: roundHalfUp_def)
  then show ?thesis using f2 by linarith
qed

lemma calculateOverallRating_roundHalfUp:
  "calculateOverallRating p = roundHalfUp (skillAverage p)"
  by (simp add: calculateOverallRating_def skillAverage_def Math_round_roundHalfUp)

lemma ratingInv_new: "ratingInv (Player_new nm pos pc sh pa ag ntl jn)"
  by (simp add: ratingInv_def Player_new_def Let_def calculateOverallRating_roundHalfUp
      skillAverage_def)

lemma ratingInv_updateStats: "ratingInv (Player_updateStats p a b c)"
  by (simp add: ratingInv_def Player_updateStats_def Let_def calculateOverallRating_roundHalfUp
      skillAverage_def)

lemma setInjuryStatus_skills:
  "pace (setInjuryStatus p b) = pace p \<and> shooting (setInjuryStatus p b) = shooting p
   \<and> passing (setInjuryStatus p b) = passing p
   \<and> overallRating (setInjuryStatus p b) = overallRating p"
  by (simp add: setInjuryStatus_def)

lemma addCard_skills:
  "pace (addCard p k) = pace p \<and> shooting (addCard p k) = shooting p
   \<and> passing (addCard p k) = passing p \<and> overallRating (addCard p k) = overallRating p"
  by (simp add: addCard_def Let_def)

lemma ratingInv_setInjuryStatus: "ratingInv p \<Longrightarrow> ratingInv (setInjuryStatus p b)"
  by (simp add: ratingInv_def skillAverage_def setInjuryStatus_skills)

lemma ratingInv_addCard: "ratingInv p \<Longrightarrow> ratingInv (addCard p k)"
  by (simp add: ratingInv_def skillAverage_def addCard_skills)

lemma ratingInv_step: "ratingInv p \<Longrightarrow> ratingInv (applyPlayerOp p op)"
  by (cases op) (simp_all add: ratingInv_updateStats ratingInv_setInjuryStatus ratingInv_addCard)

lemma ratingInv_run: "ratingInv p \<Longrightarrow> ratingInv (foldl applyPlayerOp p ops)"
  by (induction ops arbitrary: p) (simp_all add: ratingInv_step)

text \<open>
  Claim C4. After construction and after any sequence of Player operations (so also
  directly after every \<open>updateStats\<close>), \<open>overallRating\<close> is the average of pace, shooting
  and passing rounded half up: it is \<open>roundHalfUp\<close> of the average, no integer is closer
  to the average, and where the average lies exactly between two integers it is the
  upper one. \<open>updateStats\<close> establishes this from any player; \<open>setInjuryStatus\<close> and
  \<open>addCard\<close> leave the skills and the rating as they are and so preserve it.
\<close>

theorem overallRating_round_half_up:
  "ratingInv (foldl applyPlayerOp (Player_new nm pos pc sh pa ag ntl jn) ops)
   \<and> (\<forall>k. \<bar>skillAverage (foldl applyPlayerOp (Player_new nm pos pc sh pa ag ntl jn) ops)
            - of_int (overallRating (foldl applyPlayerOp (Player_new nm pos pc sh pa ag ntl jn) ops))\<bar>
          \<le> \<bar>skillAverage (foldl applyPlayerOp (Player_new nm pos pc sh pa ag ntl jn) ops) - of_int k\<bar>)
   \<and> (\<bar>skillAverage (foldl applyPlayerOp (Player_new nm pos pc sh pa ag ntl jn) ops)
         - of_int (overallRating (foldl applyPlayerOp (Player_new nm pos pc sh pa ag ntl jn) ops))\<bar> = 1 / 2
       \<longrightarrow> skillAverage (foldl applyPlayerOp (Player_new nm pos pc sh pa ag ntl jn) ops)
           < of_int (overallRating (foldl applyPlayerOp (Player_new nm pos pc sh pa ag ntl jn) ops)))
   \<and> ratingInv (Player_updateStats p a b c)
   \<and> (ratingInv p \<longrightarrow> ratingInv (setInjuryStatus p injured) \<and> ratingInv (addCard p cardType))
   \<and> pace (setInjuryStatus p injured) = pace p \<and> shooting (setInjuryStatus p injured) = shooting p
   \<and> passing (setInjuryStatus p injured) = passing p
   \<and> pace (addCard p cardType) = pace p \<and> shooting (addCard p cardType) = shooting p
   \<and> passing (addCard p cardType) = passing p"
proof -
  define q where "q = foldl applyPlayerOp (Player_new nm pos pc sh pa ag ntl jn) ops"
  have inv: "ratingInv q"
    unfolding q_def by (rule ratingInv_run) (rule ratingInv_new)
  then have r: "overallRating q = roundHalfUp (skillAverage q)"
    by (simp add: ratingInv_def)
  have closest: "\<forall>k. \<bar>skillAverage q - of_int (overallRating q)\<bar> \<le> \<bar>skillAverage q - of_int k\<bar>"
    unfolding r by (simp add: roundHalfUp_closest)
  have tie: "\<bar>skillAverage q - of_int (overallRating q)\<bar> = 1 / 2
      \<longrightarrow> skillAverage q < of_int (overallRating q)"
    unfolding r by (simp add: roundHalfUp_tie)
  have frame: "ratingInv p \<longrightarrow> ratingInv (setInjuryStatus p injured) \<and> ratingInv (addCard p cardType)"
    by (simp add: ratingInv_setInjuryStatus ratingInv_addCard)
  show ?thesis
    using inv closest tie frame ratingInv_updateStats [of p a b c]
      setInjuryStatus_skills [of p injured] addCard_skills [of p cardType]
    unfolding q_def by simp
qed

theorem overallRating_round_half_up_witness:
  "ratingInv exPlayer
   \<and> overallRating exPlayer = 7
   \<and> ratingInv (addCard exPlayer ''yellow'')
   \<and> ratingInv (setInjuryStatus exPlayer True)
   \<and> skillAverage (Player_updateStats exPlayer 5 6 6) = 17 / 3
   \<and> overallRating (Player_updateStats exPlayer 5 6 6) = 6"
proof -
  have six: "roundHalfUp (17 / 3) = 6"
    by code_simp
  have e: "exPlayer = foldl applyPlayerOp (Player_new ''Ann'' ''Forward'' 7 12 4 25 ''Unknown'' 0) []"
    by (simp add: exPlayer_def)
  have s: "skillAverage (Player_updateStats exPlayer 5 6 6) = 17 / 3"
    by (simp add: skillAverage_def Player_updateStats_def Let_def validateAttribute_def)
  have v: "overallRating exPlayer = 7"
    by code_simp
  show ?thesis
    using overallRating_round_half_up [of "''Ann''" "''Forward''" 7 12 4 25 "''Unknown''" 0 "[]"
        exPlayer 5 6 6 True "''yellow''"] e s v six
    by (simp add: ratingInv_def)
qed

subsection \<open>Cards\<close>

lemma addCard_yellow:
  "yellowCards (addCard p ''yellow'') = (if yellowCards p + 1 \<ge> 2 then 0 else yellowCards p + 1)
   \<and> redCards (addCard p ''yellow'') = (if yellowCards p + 1 \<ge> 2 then redCards p + 1 else redCards p)"
  by (simp add: addCard_def Let_def)

lemma addCard_red:
  "yellowCards (addCard p ''red'') = yellowCards p \<and> redCards (addCard p ''red'') = redCards p + 1"
  by (simp add: addCard_def)

lemma Player_new_cards:
  "yellowCards (Player_new nm pos pc sh pa ag ntl jn) = 0
   \<and> redCards (Player_new nm pos pc sh pa ag ntl jn) = 0"
  by (simp add: Player_new_def Let_def)

text \<open>
  Claim C6. \<open>addCard ''yellow''\<close> increments the yellow tally and, when the tally reaches
  2, increments \<open>redCards\<close> by one and resets \<open>yellowCards\<close> to 0; \<open>addCard ''red''\<close>
  increments \<open>redCards\<close> and leaves the yellow tally. Hence, on a freshly constructed
  player, two yellow cards in succession give \<open>yellowCards = 0\<close> and \<open>redCards = 1\<close>, and
  a single yellow card gives \<open>yellowCards = 1\<close> and \<open>redCards = 0\<close>.
\<close>

theorem addCard_yellow_red:
  "(yellowCards p + 1 < 2 \<longrightarrow>
      yellowCards (addCard p ''yellow'') = yellowCards p + 1
      \<and> redCards (addCard p ''yellow'') = redCards p)
   \<and> (yellowCards p + 1 = 2 \<longrightarrow>
      yellowCards (addCard p ''yellow'') = 0
      \<and> redCards (addCard p ''yellow'') = redCards p + 1)
   \<and> yellowCards (addCard p ''red'') = yellowCards p
   \<and> redCards (addCard p ''red'') = redCards p + 1
   \<and> yellowCards (addCard (addCard (Player_new nm pos pc sh pa ag ntl jn) ''yellow'') ''yellow'') = 0
   \<and> redCards (addCard (addCard (Player_new nm pos pc sh pa ag ntl jn) ''yellow'') ''yellow'') = 1
   \<and> yellowCards (addCard (Player_new nm pos pc sh pa ag ntl jn) ''yellow'') = 1
   \<and> redCards (addCard (Player_new nm pos pc sh pa ag ntl jn) ''yellow'') = 0"
  using addCard_yellow [of p] addCard_red [of p]
    addCard_yellow [of "Player_new nm pos pc sh pa ag ntl jn"]
    addCard_yellow [of "addCard (Player_new nm pos pc sh pa ag ntl jn) ''yellow''"]
    Player_new_cards [of nm pos pc sh pa ag ntl jn]
  by simp

theorem addCard_yellow_red_witness:
  "yellowCards exPlayer + 1 < 2
   \<and> yellowCards (addCard exPlayer ''yellow'') = 1
   \<and> redCards (addCard exPlayer ''yellow'') = 0
   \<and> yellowCards (addCard exPlayer ''yellow'') + 1 = 2
   \<and> yellowCards (addCard (addCard exPlayer ''yellow'') ''yellow'') = 0
   \<and> redCards (addCard (addCard exPlayer ''yellow'') ''yellow'') = 1"
proof -
  have y: "yellowCards exPlayer = 0" and r: "redCards exPlayer = 0"
    by (simp_all add: exPlayer_def Player_new_cards)
  have one: "yellowCards (addCard exPlayer ''yellow'') = 1 \<and> redCards (addCard exPlayer ''yellow'') = 0"
    using addCard_yellow_red [of exPlayer] y r by simp
  then show ?thesis
    using addCard_yellow_red [of "addCard exPlayer ''yellow''"] y by simp
qed

lemma cardsInv_new: "cardsInv (Player_new nm pos pc sh pa ag ntl jn)"
  by (simp add: cardsInv_def Player_new_cards)

lemma cardsInv_addCard: "cardsInv p \<Longrightarrow> cardsInv (addCard p k)"
  by (auto simp: cardsInv_def addCard_def Let_def)

lemma cardsInv_updateStats: "cardsInv p \<Longrightarrow> cardsInv (Player_updateStats p a b c)"
  by (simp add: cardsInv_def Player_updateStats_def Let_def)

lemma cardsInv_setInjuryStatus: "cardsInv p \<Longrightarrow> cardsInv (setInjuryStatus p b)"
  by (simp add: cardsInv_def setInjuryStatus_def)

lemma cardsInv_cards: "cardsInv p \<Longrightarrow> cardsInv (foldl addCard p ks)"
  by (induction ks arbitrary: p) (simp_all add: cardsInv_addCard)

lemma cardsInv_step: "cardsInv p \<Longrightarrow> cardsInv (applyPlayerOp p op)"
  by (cases op) (simp_all add: cardsInv_addCard cardsInv_updateStats cardsInv_setInjuryStatus)

lemma cardsInv_run: "cardsInv p \<Longrightarrow> cardsInv (foldl applyPlayerOp p ops)"
  by (induction ops arbitrary: p) (simp_all add: cardsInv_step)

text \<open>
  Claim C9. After construction and any sequence of \<open>addCard\<close> calls (with any arguments),
  \<open>yellowCards\<close> is 0 or 1, never 2 or more, and \<open>yellowCards\<close> and \<open>redCards\<close> are
  non-negative. The same holds when calls of the other Player operations are mixed in.
\<close>

theorem yellowCards_zero_or_one:
  "(yellowCards (foldl addCard (Player_new nm pos pc sh pa ag ntl jn) cards) = 0
    \<or> yellowCards (foldl addCard (Player_new nm pos pc sh pa ag ntl jn) cards) = 1)
   \<and> yellowCards (foldl addCard (Player_new nm pos pc sh pa ag ntl jn) cards) < 2
   \<and> 0 \<le> yellowCards (foldl addCard (Player_new nm pos pc sh pa ag ntl jn) cards)
   \<and> 0 \<le> redCards (foldl addCard (Player_new nm pos pc sh pa ag ntl jn) cards)
   \<and> cardsInv (foldl applyPlayerOp (Player_new nm pos pc sh pa ag ntl jn) ops)"
proof -
  have "cardsInv (foldl addCard (Player_new nm pos pc sh pa ag ntl jn) cards)"
    by (rule cardsInv_cards) (rule cardsInv_new)
  moreover have "cardsInv (foldl applyPlayerOp (Player_new nm pos pc sh pa ag ntl jn) ops)"
    by (rule cardsInv_run) (rule cardsInv_new)
  ultimately show ?thesis
    by (auto simp: cardsInv_def)
qed

section \<open>Team and League: membership\<close>

subsection \<open>Array helpers\<close>

lemma findIndex_absent: "(\<forall>x\<in>set xs. \<not> P x) \<Longrightarrow> findIndex P xs = -1"
  by (induction xs) (simp_all add: Let_def)

lemma findIndex_range: "findIndex P xs = -1 \<or> (0 \<le> findIndex P xs \<and> findIndex P xs < int (length xs))"
  by (induction xs) (auto simp: Let_def)

lemma findIndex_nat_less: "findIndex P xs \<noteq> -1 \<Longrightarrow> nat (findIndex P xs) < length xs"
  using findIndex_range [of P xs] by (simp add: nat_less_iff)

lemma findIndex_found:
  "findIndex P xs \<noteq> -1 \<Longrightarrow> find P xs = Some (xs ! nat (findIndex P xs))"
proof (induction xs)
  case Nil
  then show ?case by simp
next
  case (Cons x xs)
  show ?case
  proof (cases "P x")
    case True
    then show ?thesis by simp
  next
    case False
    with Cons.prems have ne: "findIndex P xs \<noteq> -1"
      by (auto simp: Let_def split: if_splits)
    then have ge: "0 \<le> findIndex P xs"
      using findIndex_range [of P xs] by simp
    have "nat (findIndex P xs + 1) = Suc (nat (findIndex P xs))"
      using ge by simp
    with False ne Cons.IH show ?thesis
      by (simp add: Let_def)
  qed
qed

lemma findIndex_find_None: "find P xs = None \<longleftrightarrow> findIndex P xs = -1"
proof (induction xs)
  case Nil
  then show ?case by simp
next
  case (Cons x xs)
  then show ?case
    using findIndex_range [of P xs] by (auto simp: Let_def)
qed

lemma findIndex_snoc:
  "(\<forall>x\<in>set xs. \<not> P x) \<Longrightarrow> P y \<Longrightarrow> findIndex P (xs @ [y]) = int (length xs)"
  by (induction xs) (simp_all add: Let_def)

lemma splice_snoc: "Array_splice (xs @ [y]) (length xs) (Suc 0) = xs"
  by (simp add: Array_splice_def)

lemma sum_list_splice:
  assumes "i < length xs"
  shows "sum_list (map f (Array_splice xs i 1)) = sum_list (map f xs) - (f (xs ! i) :: int)"
proof -
  have "xs = take i xs @ xs ! i # drop (Suc i) xs"
    using assms by (rule id_take_nth_drop)
  then have "sum_list (map f xs) = sum_list (map f (take i xs)) + f (xs ! i) + sum_list (map f (drop (Suc i) xs))"
    by (metis add.assoc map_append list.simps(9) sum_list.Cons sum_list.append)
  then show ?thesis
    by (simp add: Array_splice_def)
qed

lemma find_None_iff_absent: "find P xs = None \<longleftrightarrow> (\<forall>x\<in>set xs. \<not> P x)"
  by (auto simp: find_None_iff)

subsection \<open>Adding and removing players\<close>

lemma removePlayer_absent:
  "(\<forall>q\<in>set (players t). pname (ps q) \<noteq> n) \<Longrightarrow> removePlayer ps t n = (False, t)"
  by (simp add: removePlayer_def findIndex_absent)

lemma removeTeam_absent:
  "(\<forall>t\<in>set (teams l). tname (ts t) \<noteq> n) \<Longrightarrow> removeTeam ts l n = (False, l)"
  by (simp add: removeTeam_def findIndex_absent)

text \<open>
  Claim C7. For a team whose roster has no player named \<open>n\<close>, \<open>addPlayer\<close> with a
  player named \<open>n\<close> followed by \<open>removePlayer n\<close> succeeds twice and restores the
  roster, and with it the whole team, to what it was: same players, same order.
\<close>

theorem addPlayer_removePlayer_roundtrip:
  assumes "\<forall>q\<in>set (players t). pname (ps q) \<noteq> n" and "pname (ps p) = n"
  shows "fst (addPlayer t (PlayerObj p))
    \<and> players (snd (addPlayer t (PlayerObj p))) = players t @ [p]
    \<and> fst (removePlayer ps (snd (addPlayer t (PlayerObj p))) n)
    \<and> players (snd (removePlayer ps (snd (addPlayer t (PlayerObj p))) n)) = players t
    \<and> snd (removePlayer ps (snd (addPlayer t (PlayerObj p))) n) = t"
proof -
  have idx: "findIndex (\<lambda>q. pname (ps q) = n) (players t @ [p]) = int (length (players t))"
    using assms by (intro findIndex_snoc) simp_all
  show ?thesis
    by (simp add: addPlayer_def removePlayer_def idx splice_snoc)
qed

theorem addPlayer_removePlayer_roundtrip_witness:
  "pname (exPlayers 1) \<noteq> ''Ann''
   \<and> pname (exPlayers 0) = ''Ann''
   \<and> players (snd (addPlayer ((Team_new ''A'' ''Unknown'' ''Unknown'')\<lparr>players := [1, 1]\<rparr>) (PlayerObj 0))) = [1, 1, 0]
   \<and> players (snd (removePlayer exPlayers
        (snd (addPlayer ((Team_new ''A'' ''Unknown'' ''Unknown'')\<lparr>players := [1, 1]\<rparr>) (PlayerObj 0))) ''Ann'')) = [1, 1]"
proof -
  have h1: "\<forall>q\<in>set (players ((Team_new ''A'' ''Unknown'' ''Unknown'')\<lparr>players := [1, 1]\<rparr>)). pname (exPlayers q) \<noteq> ''Ann''"
    by (simp add: Team_new_def exPlayers_def Player_new_def Let_def)
  have h2: "pname (exPlayers 0) = ''Ann''"
    by (simp add: exPlayers_def exPlayer_def Player_new_def Let_def)
  show ?thesis
    using addPlayer_removePlayer_roundtrip [OF h1 h2] h1 h2
    by (simp add: Team_new_def)
qed


subsection \<open>Recording a match\<close>

lemma recordMatch_unresolved:
  "getTeam ts l home = None \<or> getTeam ts l away = None \<Longrightarrow>
   recordMatch ts l home away hg ag now = (False, ts, l)"
  by (auto simp: recordMatch_def split: option.splits)

lemma recordMatch_resolved:
  assumes "getTeam ts l home = Some h" and "getTeam ts l away = Some a"
  shows "recordMatch ts l home away hg ag now =
    (True,
     (ts(h := Team_updateStats (ts h) hg ag (if hg > ag then 3 else if hg < ag then 0 else 1)))
       (a := Team_updateStats
          ((ts(h := Team_updateStats (ts h) hg ag (if hg > ag then 3 else if hg < ag then 0 else 1))) a)
          ag hg (if hg > ag then 0 else if hg < ag then 3 else 1)),
     l\<lparr>matches := matches l @
        [\<lparr>homeTeam = home, awayTeam = away, homeGoals = hg, awayGoals = ag, date = now\<rparr>]\<rparr>)"
  using assms by (simp add: recordMatch_def Let_def)

lemma Team_updateStats_fields:
  "goalsFor (Team_updateStats t gs gc pe) = goalsFor t + gs
   \<and> goalsAgainst (Team_updateStats t gs gc pe) = goalsAgainst t + gc
   \<and> points (Team_updateStats t gs gc pe) = points t + pe
   \<and> players (Team_updateStats t gs gc pe) = players t
   \<and> tname (Team_updateStats t gs gc pe) = tname t
   \<and> city (Team_updateStats t gs gc pe) = city t
   \<and> stadium (Team_updateStats t gs gc pe) = stadium t"
  by (simp add: Team_updateStats_def Let_def)

lemma getTeam_Some_iff:
  "(\<exists>t. getTeam ts l n = Some t) \<longleftrightarrow> (\<exists>t\<in>set (teams l). tname (ts t) = n)"
proof -
  have "getTeam ts l n = None \<longleftrightarrow> (\<forall>t\<in>set (teams l). tname (ts t) \<noteq> n)"
    by (simp add: getTeam_def find_None_iff_absent)
  then show ?thesis by auto
qed

lemma getTeam_SomeD:
  "getTeam ts l n = Some t \<Longrightarrow> t \<in> set (teams l) \<and> tname (ts t) = n"
  by (auto simp: getTeam_def find_Some_iff)

text \<open>
  Claim C1, as amended. When the two team names resolve to two different teams,
  \<open>recordMatch\<close> succeeds; a home win gives the home team 3 points and the away team 0,
  an away win the reverse, a draw 1 point each; the home team's \<open>goalsFor\<close> and
  \<open>goalsAgainst\<close> grow by \<open>homeGoals\<close> and \<open>awayGoals\<close>, the away team's by \<open>awayGoals\<close>
  and \<open>homeGoals\<close>; exactly one match record, with the names, the goals and the time, is
  appended to the match log; nothing else of the league and no other team changes.
\<close>

theorem recordMatch_points_goals_log:
  assumes "getTeam ts l home = Some h" and "getTeam ts l away = Some a" and "h \<noteq> a"
  shows "fst (recordMatch ts l home away hg ag now)
    \<and> (hg > ag \<longrightarrow>
         points (fst (snd (recordMatch ts l home away hg ag now)) h) = points (ts h) + 3
         \<and> points (fst (snd (recordMatch ts l home away hg ag now)) a) = points (ts a) + 0)
    \<and> (hg < ag \<longrightarrow>
         points (fst (snd (recordMatch ts l home away hg ag now)) a) = points (ts a) + 3
         \<and> points (fst (snd (recordMatch ts l home away hg ag now)) h) = points (ts h) + 0)
    \<and> (hg = ag \<longrightarrow>
         points (fst (snd (recordMatch ts l home away hg ag now)) h) = points (ts h) + 1
         \<and> points (fst (snd (recordMatch ts l home away hg ag now)) a) = points (ts a) + 1)
    \<and> goalsFor (fst (snd (recordMatch ts l home away hg ag now)) h) = goalsFor (ts h) + hg
    \<and> goalsAgainst (fst (snd (recordMatch ts l home away hg ag now)) h) = goalsAgainst (ts h) + ag
    \<and> goalsFor (fst (snd (recordMatch ts l home away hg ag now)) a) = goalsFor (ts a) + ag
    \<and> goalsAgainst (fst (snd (recordMatch ts l home away hg ag now)) a) = goalsAgainst (ts a) + hg
    \<and> matches (snd (snd (recordMatch ts l home away hg ag now))) =
        matches l @ [\<lparr>homeTeam = home, awayTeam = away, homeGoals = hg, awayGoals = ag, date = now\<rparr>]
    \<and> length (matches (snd (snd (recordMatch ts l home away hg ag now)))) = length (matches l) + 1
    \<and> teams (snd (snd (recordMatch ts l home away hg ag now))) = teams l
    \<and> (\<forall>t. t \<noteq> h \<and> t \<noteq> a \<longrightarrow> fst (snd (recordMatch ts l home away hg ag now)) t = ts t)"
  using assms(3)
  by (simp add: recordMatch_resolved [OF assms(1) assms(2)] Team_updateStats_fields)

theorem recordMatch_points_goals_log_witness:
  "getTeam exTeams exLeague ''A'' = Some 0 \<and> getTeam exTeams exLeague ''B'' = Some 1
   \<and> (0::nat) \<noteq> 1 \<and> (3::int) > 1
   \<and> fst (recordMatch exTeams exLeague ''A'' ''B'' 3 1 7)
   \<and> points (fst (snd (recordMatch exTeams exLeague ''A'' ''B'' 3 1 7)) 0) = 3
   \<and> goalsFor (fst (snd (recordMatch exTeams exLeague ''A'' ''B'' 3 1 7)) 0) = 3
   \<and> goalsAgainst (fst (snd (recordMatch exTeams exLeague ''A'' ''B'' 3 1 7)) 0) = 1
   \<and> points (fst (snd (recordMatch exTeams exLeague ''A'' ''B'' 3 1 7)) 1) = 0
   \<and> goalsFor (fst (snd (recordMatch exTeams exLeague ''A'' ''B'' 3 1 7)) 1) = 1
   \<and> goalsAgainst (fst (snd (recordMatch exTeams exLeague ''A'' ''B'' 3 1 7)) 1) = 3
   \<and> matches (snd (snd (recordMatch exTeams exLeague ''A'' ''B'' 3 1 7))) =
       [\<lparr>homeTeam = ''A'', awayTeam = ''B'', homeGoals = 3, awayGoals = 1, date = 7\<rparr>]"
proof -
  have h: "getTeam exTeams exLeague ''A'' = Some 0"
    by (simp add: getTeam_def exTeams_def exLeague_def addTeam_def League_new_def Team_new_def)
  have a: "getTeam exTeams exLeague ''B'' = Some 1"
    by (simp add: getTeam_def exTeams_def exLeague_def addTeam_def League_new_def Team_new_def)
  have ne: "(0::nat) \<noteq> 1" by simp
  have fresh: "points (exTeams 0) = 0 \<and> goalsFor (exTeams 0) = 0 \<and> goalsAgainst (exTeams 0) = 0
      \<and> points (exTeams 1) = 0 \<and> goalsFor (exTeams 1) = 0 \<and> goalsAgainst (exTeams 1) = 0"
    by (simp add: exTeams_def Team_new_def)
  have log: "matches exLeague = []"
    by (simp add: exLeague_def addTeam_def League_new_def)
  show ?thesis
    using recordMatch_points_goals_log [OF h a ne, of 3 1 7] h a fresh log
    by simp
qed

text \<open>Claim C1 as the specification states it fails when both names resolve to the same
  team: in the one-sided draw A against A, 1-1, the team gains 2 points and 2 goals for,
  not 1 and 1.\<close>

theorem recordMatch_self_match_counterexample:
  "getTeam exTeams exLeague ''A'' = Some 0
   \<and> fst (recordMatch exTeams exLeague ''A'' ''A'' 1 1 7)
   \<and> points (fst (snd (recordMatch exTeams exLeague ''A'' ''A'' 1 1 7)) 0) = points (exTeams 0) + 2
   \<and> points (fst (snd (recordMatch exTeams exLeague ''A'' ''A'' 1 1 7)) 0) \<noteq> points (exTeams 0) + 1
   \<and> goalsFor (fst (snd (recordMatch exTeams exLeague ''A'' ''A'' 1 1 7)) 0) \<noteq> goalsFor (exTeams 0) + 1
   \<and> goalsAgainst (fst (snd (recordMatch exTeams exLeague ''A'' ''A'' 1 1 7)) 0) \<noteq> goalsAgainst (exTeams 0) + 1"
proof -
  have h: "getTeam exTeams exLeague ''A'' = Some 0"
    by (simp add: getTeam_def exTeams_def exLeague_def addTeam_def League_new_def Team_new_def)
  show ?thesis
    by (simp add: h recordMatch_resolved [OF h h] Team_updateStats_fields)
qed

text \<open>
  Claim C2. \<open>recordMatch\<close> with a home or away name that resolves to no team returns
  \<open>False\<close> and changes nothing: the team store (statistics and rosters of all teams) and
  the league (teams and match log) are what they were. \<open>removeTeam\<close> with a name that no
  team of the league has, and \<open>removePlayer\<close> with a name that no player of the roster
  has, return \<open>False\<close> and leave the league, respectively the team, as it was, so the
  collection keeps its length and its order.
\<close>

theorem not_found_changes_nothing:
  "(getTeam ts l home = None \<or> getTeam ts l away = None \<longrightarrow>
      recordMatch ts l home away hg ag now = (False, ts, l))
   \<and> ((\<forall>t\<in>set (teams l). tname (ts t) \<noteq> n) \<longrightarrow>
        getTeam ts l n = None \<and> removeTeam ts l n = (False, l))
   \<and> ((\<forall>q\<in>set (players t). pname (ps q) \<noteq> n) \<longrightarrow>
        getPlayer ps t n = None \<and> removePlayer ps t n = (False, t))"
proof -
  have m: "getTeam ts l home = None \<or> getTeam ts l away = None \<longrightarrow>
      recordMatch ts l home away hg ag now = (False, ts, l)"
    by (rule impI) (rule recordMatch_unresolved)
  have r: "(\<forall>t\<in>set (teams l). tname (ts t) \<noteq> n) \<longrightarrow>
      getTeam ts l n = None \<and> removeTeam ts l n = (False, l)"
    by (simp add: getTeam_def find_None_iff_absent removeTeam_absent)
  have p: "(\<forall>q\<in>set (players t). pname (ps q) \<noteq> n) \<longrightarrow>
      getPlayer ps t n = None \<and> removePlayer ps t n = (False, t)"
    by (simp add: getPlayer_def find_None_iff_absent removePlayer_absent)
  from m r p show ?thesis by (intro conjI)
qed

theorem not_found_changes_nothing_witness:
  "getTeam exTeams exLeague ''C'' = None
   \<and> recordMatch exTeams exLeague ''A'' ''C'' 2 0 7 = (False, exTeams, exLeague)
   \<and> recordMatch exTeams exLeague ''C'' ''A'' 2 0 7 = (False, exTeams, exLeague)
   \<and> removeTeam exTeams exLeague ''C'' = (False, exLeague)
   \<and> teams exLeague = [0, 1]
   \<and> removePlayer exPlayers ((exTeams 0)\<lparr>players := [1, 1]\<rparr>) ''Ann''
       = (False, (exTeams 0)\<lparr>players := [1, 1]\<rparr>)"
proof -
  have tm: "teams exLeague = [0, 1]"
    by (simp add: exLeague_def addTeam_def League_new_def)
  have c: "\<forall>t\<in>set (teams exLeague). tname (exTeams t) \<noteq> ''C''"
    by (simp add: tm exTeams_def Team_new_def)
  have p: "\<forall>q\<in>set (players ((exTeams 0)\<lparr>players := [1, 1]\<rparr>)). pname (exPlayers q) \<noteq> ''Ann''"
    by (simp add: exPlayers_def Player_new_def Let_def)
  show ?thesis
    using not_found_changes_nothing [of exTeams exLeague "''A''" "''C''" 2 0 7 "''C''"
        "(exTeams 0)\<lparr>players := [1, 1]\<rparr>" exPlayers]
      not_found_changes_nothing [of exTeams exLeague "''C''" "''A''" 2 0 7 "''Ann''"
        "(exTeams 0)\<lparr>players := [1, 1]\<rparr>" exPlayers]
      c p tm
    by simp
qed

text \<open>
  Claim C10. In a league with a team named \<open>n\<close>, \<open>recordMatch n n\<close> succeeds: the one
  team that \<open>n\<close> resolves to receives both updates, so its \<open>goalsFor\<close> and its
  \<open>goalsAgainst\<close> each grow by \<open>homeGoals + awayGoals\<close> and its points by the home award
  plus the away award (2 for a draw, 3 otherwise); one match record is appended and no
  other team changes.
\<close>

theorem recordMatch_same_team:
  assumes "\<exists>t\<in>set (teams l). tname (ts t) = n"
  shows "\<exists>t. getTeam ts l n = Some t \<and> t \<in> set (teams l) \<and> tname (ts t) = n
    \<and> fst (recordMatch ts l n n hg ag now)
    \<and> goalsFor (fst (snd (recordMatch ts l n n hg ag now)) t) = goalsFor (ts t) + (hg + ag)
    \<and> goalsAgainst (fst (snd (recordMatch ts l n n hg ag now)) t) = goalsAgainst (ts t) + (hg + ag)
    \<and> points (fst (snd (recordMatch ts l n n hg ag now)) t) =
        points (ts t) + (if hg > ag then 3 else if hg < ag then 0 else 1)
                      + (if hg > ag then 0 else if hg < ag then 3 else 1)
    \<and> points (fst (snd (recordMatch ts l n n hg ag now)) t) =
        points (ts t) + (if hg = ag then 2 else 3)
    \<and> matches (snd (snd (recordMatch ts l n n hg ag now))) =
        matches l @ [\<lparr>homeTeam = n, awayTeam = n, homeGoals = hg, awayGoals = ag, date = now\<rparr>]
    \<and> teams (snd (snd (recordMatch ts l n n hg ag now))) = teams l
    \<and> (\<forall>u. u \<noteq> t \<longrightarrow> fst (snd (recordMatch ts l n n hg ag now)) u = ts u)"
proof -
  from assms obtain t where t: "getTeam ts l n = Some t"
    using getTeam_Some_iff [of ts l n] by blast
  have "t \<in> set (teams l) \<and> tname (ts t) = n"
    using t by (rule getTeam_SomeD)
  then show ?thesis
    using t by (intro exI [of _ t]) (simp add: recordMatch_resolved [OF t t] Team_updateStats_fields)
qed

theorem recordMatch_same_team_witness:
  "(\<exists>t\<in>set (teams exLeague). tname (exTeams t) = ''B'')
   \<and> getTeam exTeams exLeague ''B'' = Some 1
   \<and> fst (recordMatch exTeams exLeague ''B'' ''B'' 2 2 9)
   \<and> points (fst (snd (recordMatch exTeams exLeague ''B'' ''B'' 2 2 9)) 1) = 2
   \<and> goalsFor (fst (snd (recordMatch exTeams exLeague ''B'' ''B'' 2 2 9)) 1) = 4
   \<and> goalsAgainst (fst (snd (recordMatch exTeams exLeague ''B'' ''B'' 2 2 9)) 1) = 4
   \<and> matches (snd (snd (recordMatch exTeams exLeague ''B'' ''B'' 2 2 9))) =
       [\<lparr>homeTeam = ''B'', awayTeam = ''B'', homeGoals = 2, awayGoals = 2, date = 9\<rparr>]"
proof -
  have tm: "teams exLeague = [0, 1]" and log: "matches exLeague = []"
    by (simp_all add: exLeague_def addTeam_def League_new_def)
  have ex: "\<exists>t\<in>set (teams exLeague). tname (exTeams t) = ''B''"
    by (simp add: tm exTeams_def Team_new_def)
  have b: "getTeam exTeams exLeague ''B'' = Some 1"
    by (simp add: getTeam_def tm exTeams_def Team_new_def)
  have fresh: "points (exTeams 1) = 0 \<and> goalsFor (exTeams 1) = 0 \<and> goalsAgainst (exTeams 1) = 0"
    by (simp add: exTeams_def Team_new_def)
  show ?thesis
    using recordMatch_same_team [OF ex, of 2 2 9] ex b fresh log
    by auto
qed

subsection \<open>What the other operations leave alone\<close>

lemma exec_stats:
  "points (teamAt (exec op w) t) = points (teamAt w t)
   \<and> goalsFor (teamAt (exec op w) t) = goalsFor (teamAt w t)
   \<and> goalsAgainst (teamAt (exec op w) t) = goalsAgainst (teamAt w t)"
  by (cases op) (simp_all add: addPlayer_def removePlayer_def Let_def split: jsval.splits)

lemma exec_teams:
  "(\<forall>v. op \<noteq> AddTeam v) \<Longrightarrow> (\<forall>n. op \<noteq> RemoveTeam n) \<Longrightarrow>
   teams (league (exec op w)) = teams (league w)"
  by (cases op) simp_all

lemma leagueTotal_same:
  "(\<forall>t. f (teamAt w' t) = f (teamAt w t)) \<Longrightarrow> teams (league w') = teams (league w) \<Longrightarrow>
   leagueTotal f w' = leagueTotal f w"
  by (simp add: leagueTotal_def)

lemma leagueTotal_addTeam:
  "leagueTotal f (exec (AddTeam (TeamObj r)) w) = leagueTotal f w + f (teamAt w r)"
  by (simp add: leagueTotal_def addTeam_def)

lemma exec_addTeam_other: "(\<forall>r. v \<noteq> TeamObj r) \<Longrightarrow> exec (AddTeam v) w = w"
  by (cases v) (simp_all add: addTeam_def)

lemma exec_removeTeam_absent:
  "getTeam (teamAt w) (league w) n = None \<Longrightarrow> exec (RemoveTeam n) w = w"
  by (simp add: getTeam_def findIndex_find_None removeTeam_def)

lemma leagueTotal_removeTeam:
  assumes "getTeam (teamAt w) (league w) n = Some r"
  shows "leagueTotal f (exec (RemoveTeam n) w) = leagueTotal f w - f (teamAt w r)"
proof -
  define i where "i = findIndex (\<lambda>t. tname (teamAt w t) = n) (teams (league w))"
  have ne: "i \<noteq> -1"
    using assms findIndex_find_None [of "\<lambda>t. tname (teamAt w t) = n" "teams (league w)"]
    by (simp add: getTeam_def i_def)
  then have r: "teams (league w) ! nat i = r"
    using assms findIndex_found [of "\<lambda>t. tname (teamAt w t) = n" "teams (league w)"]
    by (simp add: getTeam_def i_def)
  have lt: "nat i < length (teams (league w))"
    using ne unfolding i_def by (rule findIndex_nat_less)
  have "teams (league (exec (RemoveTeam n) w)) = Array_splice (teams (league w)) (nat i) 1"
    using ne by (simp add: removeTeam_def i_def Let_def)
  then have "leagueTotal f (exec (RemoveTeam n) w)
      = sum_list (map (\<lambda>t. f (teamAt w t)) (Array_splice (teams (league w)) (nat i) 1))"
    by (simp add: leagueTotal_def)
  also have "\<dots> = sum_list (map (\<lambda>t. f (teamAt w t)) (teams (league w))) - f (teamAt w (teams (league w) ! nat i))"
    using lt by (rule sum_list_splice)
  finally show ?thesis
    by (simp add: leagueTotal_def r)
qed

lemma removeTeam_found_length:
  assumes "getTeam ts l n = Some r"
  shows "fst (removeTeam ts l n) \<and> length (teams (snd (removeTeam ts l n))) = length (teams l) - 1"
proof -
  define i where "i = findIndex (\<lambda>t. tname (ts t) = n) (teams l)"
  have ne: "i \<noteq> -1"
    using assms findIndex_find_None [of "\<lambda>t. tname (ts t) = n" "teams l"]
    by (simp add: getTeam_def i_def)
  have lt: "nat i < length (teams l)"
    using ne unfolding i_def by (rule findIndex_nat_less)
  show ?thesis
    using ne lt by (simp add: removeTeam_def i_def [symmetric] Let_def Array_splice_def)
qed

text \<open>
  Claim C8, as amended. None of the operations other than \<open>recordMatch\<close> (\<open>addTeam\<close>,
  \<open>removeTeam\<close>, \<open>getTeam\<close>, \<open>getStandings\<close>, the snapshots, the roster operations of a
  team and the operations of a player) changes the \<open>points\<close>, \<open>goalsFor\<close> or
  \<open>goalsAgainst\<close> of any team. The league-wide totals are unchanged by all of them
  except the two that change which teams are in the league: \<open>addTeam\<close> raises each
  total by the added team's statistic (by nothing for a freshly constructed team, and
  for a value that is no team), and \<open>removeTeam\<close> lowers it by the removed team's
  statistic (and changes nothing when no team has the name).
\<close>

theorem stats_only_recordMatch:
  "points (teamAt (exec op w) t) = points (teamAt w t)
   \<and> goalsFor (teamAt (exec op w) t) = goalsFor (teamAt w t)
   \<and> goalsAgainst (teamAt (exec op w) t) = goalsAgainst (teamAt w t)
   \<and> ((\<forall>v. op \<noteq> AddTeam v) \<and> (\<forall>n. op \<noteq> RemoveTeam n) \<longrightarrow>
        totalPoints (exec op w) = totalPoints w
        \<and> totalGoalsFor (exec op w) = totalGoalsFor w
        \<and> totalGoalsAgainst (exec op w) = totalGoalsAgainst w)
   \<and> totalPoints (exec (AddTeam (TeamObj r)) w) = totalPoints w + points (teamAt w r)
   \<and> totalGoalsFor (exec (AddTeam (TeamObj r)) w) = totalGoalsFor w + goalsFor (teamAt w r)
   \<and> totalGoalsAgainst (exec (AddTeam (TeamObj r)) w) = totalGoalsAgainst w + goalsAgainst (teamAt w r)
   \<and> (teamAt w r = Team_new nm c s \<longrightarrow>
        totalPoints (exec (AddTeam (TeamObj r)) w) = totalPoints w
        \<and> totalGoalsFor (exec (AddTeam (TeamObj r)) w) = totalGoalsFor w
        \<and> totalGoalsAgainst (exec (AddTeam (TeamObj r)) w) = totalGoalsAgainst w)
   \<and> ((\<forall>u. v \<noteq> TeamObj u) \<longrightarrow> exec (AddTeam v) w = w)
   \<and> (getTeam (teamAt w) (league w) n = Some r \<longrightarrow>
        totalPoints (exec (RemoveTeam n) w) = totalPoints w - points (teamAt w r)
        \<and> totalGoalsFor (exec (RemoveTeam n) w) = totalGoalsFor w - goalsFor (teamAt w r)
        \<and> totalGoalsAgainst (exec (RemoveTeam n) w) = totalGoalsAgainst w - goalsAgainst (teamAt w r))
   \<and> (getTeam (teamAt w) (league w) n = None \<longrightarrow> exec (RemoveTeam n) w = w)"
proof -
  have other: "(\<forall>v. op \<noteq> AddTeam v) \<and> (\<forall>n. op \<noteq> RemoveTeam n) \<longrightarrow>
        totalPoints (exec op w) = totalPoints w
        \<and> totalGoalsFor (exec op w) = totalGoalsFor w
        \<and> totalGoalsAgainst (exec op w) = totalGoalsAgainst w"
    unfolding totalPoints_def totalGoalsFor_def totalGoalsAgainst_def
    by (intro impI conjI leagueTotal_same exec_teams allI) (simp_all add: exec_stats)
  have nonteam: "(\<forall>u. v \<noteq> TeamObj u) \<longrightarrow> exec (AddTeam v) w = w"
    by (rule impI) (rule exec_addTeam_other)
  have removed: "getTeam (teamAt w) (league w) n = Some r \<longrightarrow>
        totalPoints (exec (RemoveTeam n) w) = totalPoints w - points (teamAt w r)
        \<and> totalGoalsFor (exec (RemoveTeam n) w) = totalGoalsFor w - goalsFor (teamAt w r)
        \<and> totalGoalsAgainst (exec (RemoveTeam n) w) = totalGoalsAgainst w - goalsAgainst (teamAt w r)"
    unfolding totalPoints_def totalGoalsFor_def totalGoalsAgainst_def
    by (intro impI conjI leagueTotal_removeTeam)
  have absent: "getTeam (teamAt w) (league w) n = None \<longrightarrow> exec (RemoveTeam n) w = w"
    by (rule impI) (rule exec_removeTeam_absent)
  have added: "totalPoints (exec (AddTeam (TeamObj r)) w) = totalPoints w + points (teamAt w r)
   \<and> totalGoalsFor (exec (AddTeam (TeamObj r)) w) = totalGoalsFor w + goalsFor (teamAt w r)
   \<and> totalGoalsAgainst (exec (AddTeam (TeamObj r)) w) = totalGoalsAgainst w + goalsAgainst (teamAt w r)"
    unfolding totalPoints_def totalGoalsFor_def totalGoalsAgainst_def
    by (simp only: leagueTotal_addTeam)
  have zero: "points (Team_new nm c s) = 0 \<and> goalsFor (Team_new nm c s) = 0
      \<and> goalsAgainst (Team_new nm c s) = 0"
    by (simp add: Team_new_def)
  have fresh: "teamAt w r = Team_new nm c s \<longrightarrow>
        totalPoints (exec (AddTeam (TeamObj r)) w) = totalPoints w
        \<and> totalGoalsFor (exec (AddTeam (TeamObj r)) w) = totalGoalsFor w
        \<and> totalGoalsAgainst (exec (AddTeam (TeamObj r)) w) = totalGoalsAgainst w"
    using added zero by (simp del: exec.simps)
  from exec_stats [of op w t] other added fresh nonteam removed absent
  show ?thesis by (simp del: exec.simps)
qed

theorem stats_only_recordMatch_witness:
  "totalPoints (exec (AddPlayer 0 (PlayerObj 1)) exWorldPlayed) = 3
   \<and> totalGoalsFor (exec (OnPlayer 1 (AddCard ''yellow'')) exWorldPlayed) = 4
   \<and> totalGoalsAgainst (exec (RemovePlayer 0 ''Ann'') exWorldPlayed) = 4
   \<and> getTeam (teamAt exWorldPlayed) (league exWorldPlayed) ''B'' = Some 1
   \<and> totalGoalsFor (exec (RemoveTeam ''B'') exWorldPlayed) = 3
   \<and> teamAt exWorldPlayed 5 = Team_new ''Z'' ''Unknown'' ''Unknown''
   \<and> totalPoints (exec (AddTeam (TeamObj 5)) exWorldPlayed) = 3
   \<and> getTeam (teamAt exWorldPlayed) (league exWorldPlayed) ''C'' = None
   \<and> exec (RemoveTeam ''C'') exWorldPlayed = exWorldPlayed
   \<and> exec (AddTeam (PlayerObj 1)) exWorldPlayed = exWorldPlayed"
proof -
  have tp: "totalPoints exWorldPlayed = 3" and gf: "totalGoalsFor exWorldPlayed = 4"
    and ga: "totalGoalsAgainst exWorldPlayed = 4"
    by code_simp+
  have b: "getTeam (teamAt exWorldPlayed) (league exWorldPlayed) ''B'' = Some 1"
    by code_simp
  have gb: "goalsFor (teamAt exWorldPlayed 1) = 1"
    by code_simp
  have z: "teamAt exWorldPlayed 5 = Team_new ''Z'' ''Unknown'' ''Unknown''"
    by code_simp
  have c: "getTeam (teamAt exWorldPlayed) (league exWorldPlayed) ''C'' = None"
    by code_simp
  show ?thesis
    using stats_only_recordMatch [of "AddPlayer 0 (PlayerObj 1)" exWorldPlayed 0 5 "''Z''" "''Unknown''" "''Unknown''" "PlayerObj 1" "''C''"]
      stats_only_recordMatch [of "OnPlayer 1 (AddCard ''yellow'')" exWorldPlayed 0 1 "''Z''" "''Unknown''" "''Unknown''" "PlayerObj 1" "''B''"]
      stats_only_recordMatch [of "RemovePlayer 0 ''Ann''" exWorldPlayed 0 1 "''Z''" "''Unknown''" "''Unknown''" "PlayerObj 1" "''B''"]
      tp gf ga b gb z c
    by simp
qed

text \<open>Claim C8 as the specification states it fails for \<open>removeTeam\<close>: after A has beaten
  B 3-1, removing A takes its 3 points and 3 goals out of the league's totals.\<close>

theorem removeTeam_totals_counterexample:
  "totalPoints exWorldPlayed = 3
   \<and> totalPoints (exec (RemoveTeam ''A'') exWorldPlayed) = 0
   \<and> totalPoints (exec (RemoveTeam ''A'') exWorldPlayed) \<noteq> totalPoints exWorldPlayed
   \<and> totalGoalsFor exWorldPlayed = 4
   \<and> totalGoalsFor (exec (RemoveTeam ''A'') exWorldPlayed) = 1
   \<and> totalGoalsAgainst exWorldPlayed = 4
   \<and> totalGoalsAgainst (exec (RemoveTeam ''A'') exWorldPlayed) = 3"
  by code_simp


section \<open>Standings\<close>

lemma standingsCompare_le: "standingsCompare a b \<le> 0 \<longleftrightarrow> rankedBefore a b"
  by (auto simp: standingsCompare_def rankedBefore_def)

lemma rankedBefore_total: "\<not> rankedBefore a b \<Longrightarrow> rankedBefore b a"
  by (auto simp: rankedBefore_def)

lemma rankedBefore_trans: "rankedBefore a b \<Longrightarrow> rankedBefore b c \<Longrightarrow> rankedBefore a c"
  by (auto simp: rankedBefore_def)

lemma sameRank_rankedBefore: "sameRank pts gd a \<Longrightarrow> sameRank pts gd b \<Longrightarrow> rankedBefore a b"
  by (simp add: sameRank_def rankedBefore_def)

lemma set_sortInsert: "set (sortInsert cmp x ys) = insert x (set ys)"
  by (induction ys) auto

lemma mset_sortInsert: "mset (sortInsert cmp x ys) = add_mset x (mset ys)"
  by (induction ys) auto

lemma mset_Array_sort: "mset (Array_sort cmp xs) = mset xs"
  by (induction xs) (simp_all add: mset_sortInsert)

lemma sorted_sortInsert:
  "sorted_wrt rankedBefore ys \<Longrightarrow> sorted_wrt rankedBefore (sortInsert standingsCompare x ys)"
proof (induction ys)
  case Nil
  then show ?case by simp
next
  case (Cons y ys)
  show ?case
  proof (cases "standingsCompare x y \<le> 0")
    case True
    then have xy: "rankedBefore x y" by (simp add: standingsCompare_le)
    have "\<forall>z\<in>set ys. rankedBefore x z"
      using Cons.prems xy by (auto intro: rankedBefore_trans)
    with True xy Cons.prems show ?thesis by simp
  next
    case False
    then have yx: "rankedBefore y x"
      by (simp add: standingsCompare_le rankedBefore_total)
    from Cons.prems have "sorted_wrt rankedBefore ys" by simp
    then have "sorted_wrt rankedBefore (sortInsert standingsCompare x ys)"
      by (rule Cons.IH)
    with False yx Cons.prems show ?thesis
      by (simp add: set_sortInsert)
  qed
qed

lemma sorted_Array_sort: "sorted_wrt rankedBefore (Array_sort standingsCompare xs)"
  by (induction xs) (simp_all add: sorted_sortInsert)

text \<open>Insertion never carries an element past one of its own rank, so each rank class
  keeps the order it had.\<close>

lemma filter_sortInsert:
  "filter (sameRank pts gd) (sortInsert standingsCompare x ys) = filter (sameRank pts gd) (x # ys)"
proof (induction ys)
  case Nil
  then show ?case by simp
next
  case (Cons y ys)
  show ?case
  proof (cases "standingsCompare x y \<le> 0")
    case True
    then show ?thesis by simp
  next
    case False
    then have "\<not> rankedBefore x y" by (simp add: standingsCompare_le)
    then have "\<not> (sameRank pts gd x \<and> sameRank pts gd y)"
      using sameRank_rankedBefore by blast
    with False Cons.IH show ?thesis by auto
  qed
qed

lemma filter_Array_sort:
  "filter (sameRank pts gd) (Array_sort standingsCompare xs) = filter (sameRank pts gd) xs"
  by (induction xs) (simp_all add: filter_sortInsert)

lemma getTeamInfo_stats:
  "ts_points (ti_stats (getTeamInfo ps t)) = points t
   \<and> ts_goalsFor (ti_stats (getTeamInfo ps t)) = goalsFor t
   \<and> ts_goalsAgainst (ti_stats (getTeamInfo ps t)) = goalsAgainst t
   \<and> ts_goalDifference (ti_stats (getTeamInfo ps t)) = goalsFor t - goalsAgainst t"
  by (simp add: getTeamInfo_def)

text \<open>
  Claim C3. \<open>getStandings\<close> returns the snapshots of all the league's teams (the same
  snapshots, each as often as its team is in the league), ordered by points descending
  and, among equal points, by goal difference descending: of two entries the earlier
  has more points, or the same points and at least the goal difference. Teams equal in
  both keep their order of insertion: for every pair of points and goal difference, the
  entries of that rank appear in the standings in the order they have in the league.
  A snapshot's points and goal difference are the team's \<open>points\<close> and
  \<open>goalsFor - goalsAgainst\<close>; no other key takes part.
\<close>

theorem getStandings_sorted_stable:
  "mset (getStandings ps ts l) = mset (map (\<lambda>team. getTeamInfo ps (ts team)) (teams l))
   \<and> length (getStandings ps ts l) = length (teams l)
   \<and> sorted_wrt rankedBefore (getStandings ps ts l)
   \<and> filter (sameRank pts gd) (getStandings ps ts l)
       = filter (sameRank pts gd) (map (\<lambda>team. getTeamInfo ps (ts team)) (teams l))
   \<and> ts_points (ti_stats (getTeamInfo ps t)) = points t
   \<and> ts_goalDifference (ti_stats (getTeamInfo ps t)) = goalsFor t - goalsAgainst t"
proof -
  have m: "mset (getStandings ps ts l) = mset (map (\<lambda>team. getTeamInfo ps (ts team)) (teams l))"
    by (simp add: getStandings_def mset_Array_sort)
  then have "size (mset (getStandings ps ts l)) = size (mset (map (\<lambda>team. getTeamInfo ps (ts team)) (teams l)))"
    by simp
  then have len: "length (getStandings ps ts l) = length (teams l)"
    by simp
  show ?thesis
    using m len getTeamInfo_stats [of ps t]
    by (simp add: getStandings_def sorted_Array_sort filter_Array_sort)
qed

text \<open>The table of the four example teams: A and D, level on points and goal difference,
  stay in their order of insertion, ahead of B (same points, lower goal difference) and
  C (fewer points).\<close>

theorem getStandings_sorted_stable_witness:
  "map ti_name (getStandings exPlayers exTableTeams exTableLeague) = [''A'', ''D'', ''B'', ''C'']
   \<and> map ti_name (filter (sameRank 3 2) (getStandings exPlayers exTableTeams exTableLeague)) = [''A'', ''D'']
   \<and> length (getStandings exPlayers exTableTeams exTableLeague) = 4
   \<and> sorted_wrt rankedBefore (getStandings exPlayers exTableTeams exTableLeague)"
proof -
  have names: "map ti_name (getStandings exPlayers exTableTeams exTableLeague) = [''A'', ''D'', ''B'', ''C'']"
    by code_simp
  have level: "map ti_name (filter (sameRank 3 2)
      (map (\<lambda>team. getTeamInfo exPlayers (exTableTeams team)) (teams exTableLeague))) = [''A'', ''D'']"
    by code_simp
  have four: "length (teams exTableLeague) = 4"
    by (simp add: exTableLeague_def League_new_def)
  show ?thesis
    using getStandings_sorted_stable [of exPlayers exTableTeams exTableLeague 3 2 "exTableTeams 0"]
      names level four
    by simp
qed


end
